theory Spec2Isabelle
  imports Complex_Main "HOL-Library.Sublist" "HOL-Library.Multiset"
begin

section \<open>Text\<close>

text \<open>
  Python strings are modelled as HOL strings whose characters are read as the code points
  0 to 255 (Latin-1); text with code points beyond 255 is outside the model. The string
  methods the two modules call are written out for that range.
\<close>

text \<open>
  \<^verbatim>\<open>str.upper()\<close>: the letters a to z and the Latin-1 lower-case letters move down by 32,
  the sharp s (223) becomes \<^verbatim>\<open>SS\<close>. Python sends 181 and 255 to code points beyond 255;
  they stay as they are here, which no test against an ASCII pattern can tell apart.
\<close>

definition upper_char :: "char \<Rightarrow> string" where
  "upper_char c =
     (let n = (of_char c :: nat) in
      if 97 \<le> n \<and> n \<le> 122 then [char_of (n - 32)]
      else if n = 223 then ''SS''
      else if 224 \<le> n \<and> n \<le> 254 \<and> n \<noteq> 247 then [char_of (n - 32)]
      else [c])"

definition upper :: "string \<Rightarrow> string" where
  "upper s = concat (map upper_char s)"

text \<open>\<^verbatim>\<open>sep.join(xs)\<close>.\<close>

fun join :: "string \<Rightarrow> string list \<Rightarrow> string" where
  "join sep [] = []"
| "join sep [x] = x"
| "join sep (x # y # ys) = x @ sep @ join sep (y # ys)"

text \<open>
  \<^verbatim>\<open>str.isspace()\<close> on one character, which \<^verbatim>\<open>strip()\<close> and \<^verbatim>\<open>split()\<close> go by: the
  code points 9 to 13, 28 to 32, 133 and 160.
\<close>

definition isspace :: "char \<Rightarrow> bool" where
  "isspace c =
     (let n = (of_char c :: nat) in
      (9 \<le> n \<and> n \<le> 13) \<or> (28 \<le> n \<and> n \<le> 32) \<or> n = 133 \<or> n = 160)"

text \<open>\<^verbatim>\<open>s.strip()\<close>.\<close>

definition strip :: "string \<Rightarrow> string" where
  "strip s = rev (dropWhile isspace (rev (dropWhile isspace s)))"

text \<open>\<^verbatim>\<open>s.split(sep)\<close> for a separator of one character: never the empty list.\<close>

fun split_on :: "char \<Rightarrow> string \<Rightarrow> string list" where
  "split_on sep [] = [[]]"
| "split_on sep (c # cs) =
     (if c = sep then [] # split_on sep cs
      else case split_on sep cs of w # ws \<Rightarrow> (c # w) # ws | [] \<Rightarrow> [[c]])"

text \<open>
  \<^verbatim>\<open>s.split()\<close>: the maximal runs of characters that are not white space. The first
  argument holds the run being read, last character first.
\<close>

fun split_runs :: "string \<Rightarrow> string \<Rightarrow> string list" where
  "split_runs cur [] = (if cur = [] then [] else [rev cur])"
| "split_runs cur (c # cs) =
     (if isspace c then (if cur = [] then split_runs [] cs else rev cur # split_runs [] cs)
      else split_runs (c # cur) cs)"

definition split_ws :: "string \<Rightarrow> string list" where
  "split_ws s = split_runs [] s"

text \<open>
  \<^verbatim>\<open>s.isdigit()\<close>: a non-empty string of digits. Python counts the superscripts 178, 179
  and 185 as digits, beside 0 to 9.
\<close>

definition is_decimal :: "char \<Rightarrow> bool" where
  "is_decimal c = (let n = (of_char c :: nat) in 48 \<le> n \<and> n \<le> 57)"

definition isdigit_char :: "char \<Rightarrow> bool" where
  "isdigit_char c = (is_decimal c \<or> c = CHR 0xB2 \<or> c = CHR 0xB3 \<or> c = CHR 0xB9)"

definition isdigit :: "string \<Rightarrow> bool" where
  "isdigit s = (s \<noteq> [] \<and> list_all isdigit_char s)"

datatype py_exception =
  ValueError | FileNotFoundError | AttributeError | TypeError | KeyError | OverflowError

text \<open>
  \<^verbatim>\<open>int(s)\<close>, which both modules call only on a string that passed \<^verbatim>\<open>isdigit()\<close>: the
  value of a string of the digits 0 to 9, and ValueError on a superscript digit. (The signs,
  blanks and underscores that \<^verbatim>\<open>int\<close> accepts cannot pass \<^verbatim>\<open>isdigit()\<close>.)
\<close>

definition py_int :: "string \<Rightarrow> py_exception + int" where
  "py_int s =
     (if s \<noteq> [] \<and> list_all is_decimal s
      then Inr (foldl (\<lambda>a c. 10 * a + (of_char c - 48)) 0 s)
      else Inl ValueError)"

text \<open>\<^verbatim>\<open>s.startswith(p)\<close> is \<^const>\<open>prefix\<close>.\<close>

text \<open>\<^verbatim>\<open>pat in txt\<close> on strings is \<^const>\<open>sublist\<close>: a contiguous occurrence.\<close>

section \<open>Crash classification (logger.py)\<close>

text \<open>\<^verbatim>\<open>CrashLogger._detect_crash_type\<close>, branch by branch.\<close>

definition detect_crash_type :: "string list \<Rightarrow> string" where
  "detect_crash_type logs =
     (if logs = [] then ''process_missing''
      else
        let log_text = upper (join ''\<newline>'' logs) in
        if sublist ''FATAL EXCEPTION'' log_text then ''fatal_exception''
        else if sublist ''ANR'' log_text \<or> sublist ''APPLICATION NOT RESPONDING'' log_text
          then ''anr''
        else if sublist ''OUTOFMEMORYERROR'' log_text then ''oom''
        else if sublist ''SIGNAL'' log_text \<and> sublist ''SIGSEGV'' log_text
          then ''native_crash''
        else if sublist ''SIGABRT'' log_text then ''abort''
        else if sublist ''SIGKILL'' log_text then ''killed''
        else ''unknown'')"

section \<open>Process monitor (monitor.py)\<close>

text \<open>
  Times are counted in microseconds, the resolution of \<^verbatim>\<open>datetime\<close>, as unbounded
  integers on the scale of the local wall clock; the range of \<^verbatim>\<open>datetime\<close> (years 1 to
  9999) is not modelled. Memory in MB is a rational: for every size in kB below \<open>2^53\<close>
  the float division by 1024.0 is exact.
\<close>

record AppStatus =
  running :: bool
  crashed :: bool
  pid :: "int option"
  uptime :: int
  memory_mb :: rat
  timestamp :: int

text \<open>
  \<^verbatim>\<open>AppStatus()\<close>: the defaults of the dataclass. The default of \<^verbatim>\<open>timestamp\<close> is the
  value \<^verbatim>\<open>datetime.now()\<close> had when the class body ran, at import: the parameter
  \<open>import_time\<close>.
\<close>

definition AppStatus_init :: "int \<Rightarrow> AppStatus" where
  "AppStatus_init import_time =
     \<lparr>running = False, crashed = False, pid = None, uptime = 0, memory_mb = 0,
      timestamp = import_time\<rparr>"

record ProcessMonitor =
  package_name :: string
  last_pid :: "int option"
  start_time :: "int option"

text \<open>
  The shell commands the monitor builds:
  \<^verbatim>\<open>adb shell pgrep -f PKG\<close>, \<^verbatim>\<open>adb shell cat /proc/PID/status\<close> and
  \<^verbatim>\<open>adb shell logcat -d -t 120 | grep -E 'PATTERN'\<close>.
\<close>

datatype command = Pgrep string | Cat_proc_status int | Logcat_grep string

text \<open>
  What running a command comes to: the subprocess cannot be created or read
  (\<^verbatim>\<open>create_subprocess_shell\<close> or \<^verbatim>\<open>communicate\<close> raises), or it exits with a return code
  and its decoded standard output.
\<close>

datatype proc_outcome = Spawn_error | Exited int string

record CompletedProcess =
  returncode :: int
  stdout :: string

text \<open>
  What one call of \<^verbatim>\<open>check_app_status\<close> meets: the answer to each command, and the value
  of \<^verbatim>\<open>datetime.now()\<close> at each of its three calls in \<^verbatim>\<open>_get_running_status\<close>
  (line 100, line 104, line 114).
\<close>

record observation =
  respond :: "command \<Rightarrow> proc_outcome"
  now_reset :: int
  now_uptime :: int
  now_stamp :: int

text \<open>\<^verbatim>\<open>_run_command\<close>: an exception becomes return code 1 with empty output.\<close>

definition run_command :: "observation \<Rightarrow> command \<Rightarrow> CompletedProcess" where
  "run_command obs cmd =
     (case respond obs cmd of
        Exited rc out \<Rightarrow> \<lparr>returncode = rc, stdout = out\<rparr>
      | Spawn_error \<Rightarrow> \<lparr>returncode = 1, stdout = []\<rparr>)"

text \<open>
  \<^verbatim>\<open>_get_memory_usage\<close>. The loop over the lines returns at the first line that starts
  with \<^verbatim>\<open>VmRSS:\<close> and has a second field of digits; \<open>vmrss_field\<close> is that field.
\<close>

definition vmrss_field :: "string \<Rightarrow> string option" where
  "vmrss_field line =
     (if prefix ''VmRSS:'' line then
        let parts = split_ws line in
        if length parts \<ge> 2 \<and> isdigit (parts ! 1) then Some (parts ! 1) else None
      else None)"

fun scan_status_lines :: "string list \<Rightarrow> py_exception + rat option" where
  "scan_status_lines [] = Inr None"
| "scan_status_lines (line # rest) =
     (case vmrss_field line of
        Some field \<Rightarrow>
          (case py_int field of
             Inl e \<Rightarrow> Inl e
           | Inr kb \<Rightarrow> Inr (Some (of_int kb / 1024)))
      | None \<Rightarrow> scan_status_lines rest)"

definition get_memory_usage :: "observation \<Rightarrow> int \<Rightarrow> rat \<times> command list" where
  "get_memory_usage obs p =
     (let result = run_command obs (Cat_proc_status p);
          tried = (if returncode result = 0
                   then scan_status_lines (split_on CHR ''\<newline>'' (stdout result))
                   else Inr None)
      in (case tried of
            Inr (Some mb) \<Rightarrow> mb
          | Inr None \<Rightarrow> 0
          | Inl e \<Rightarrow> 0,
          [Cat_proc_status p]))"

text \<open>
  \<^verbatim>\<open>int(delta.total_seconds())\<close>: whole seconds, rounded towards zero.
\<close>

definition whole_seconds :: "int \<Rightarrow> int" where
  "whole_seconds d = (if 0 \<le> d then d div 1000000 else - ((- d) div 1000000))"

text \<open>
  Lines 98 to 100 of \<^verbatim>\<open>_get_running_status\<close>: a PID other than the stored one starts a
  new session.
\<close>

definition track_pid :: "ProcessMonitor \<Rightarrow> observation \<Rightarrow> int \<Rightarrow> ProcessMonitor" where
  "track_pid self obs p =
     (if last_pid self \<noteq> Some p
      then self\<lparr>last_pid := Some p, start_time := Some (now_reset obs)\<rparr>
      else self)"

text \<open>\<^verbatim>\<open>_get_running_status\<close>: the snapshot, the monitor afterwards, the commands run.\<close>

definition get_running_status ::
  "ProcessMonitor \<Rightarrow> observation \<Rightarrow> int \<Rightarrow> AppStatus \<times> ProcessMonitor \<times> command list" where
  "get_running_status self obs p =
     (let self1 = track_pid self obs p;
          up = (case start_time self1 of
                  Some t0 \<Rightarrow> whole_seconds (now_uptime obs - t0)
                | None \<Rightarrow> 0);
          (mem, cmds) = get_memory_usage obs p
      in (\<lparr>running = True, crashed = False, pid = Some p, uptime = up, memory_mb = mem,
           timestamp = now_stamp obs\<rparr>, self1, cmds))"

text \<open>\<^verbatim>\<open>_check_recent_crash\<close>: the three patterns in turn, true at the first hit.\<close>

fun scan_crash_patterns :: "observation \<Rightarrow> string list \<Rightarrow> bool \<times> command list" where
  "scan_crash_patterns obs [] = (False, [])"
| "scan_crash_patterns obs (pattern # rest) =
     (let result = run_command obs (Logcat_grep pattern) in
      if returncode result = 0 \<and> strip (stdout result) \<noteq> [] then (True, [Logcat_grep pattern])
      else let (found, cmds) = scan_crash_patterns obs rest
           in (found, Logcat_grep pattern # cmds))"

definition check_recent_crash :: "ProcessMonitor \<Rightarrow> observation \<Rightarrow> bool \<times> command list" where
  "check_recent_crash self obs =
     scan_crash_patterns obs
       [package_name self @ ''.*FATAL'', package_name self @ ''.*CRASH'',
        package_name self @ ''.*ANR'']"

text \<open>
  Lines 72 and 73: the first line of the stripped output as a PID, \<^verbatim>\<open>None\<close> when it is
  not a string of digits.
\<close>

definition parse_pid :: "string \<Rightarrow> py_exception + int option" where
  "parse_pid out =
     (let pids = split_on CHR ''\<newline>'' (strip out) in
      if pids \<noteq> [] \<and> isdigit (hd pids)
      then (case py_int (hd pids) of Inl e \<Rightarrow> Inl e | Inr n \<Rightarrow> Inr (Some n))
      else Inr None)"

text \<open>
  The body of the \<^verbatim>\<open>try\<close> in \<^verbatim>\<open>check_app_status\<close>: a snapshot, or the exception that
  leaves the body.
\<close>

definition check_app_status_body ::
  "int \<Rightarrow> ProcessMonitor \<Rightarrow> observation
     \<Rightarrow> (py_exception + AppStatus) \<times> ProcessMonitor \<times> command list" where
  "check_app_status_body import_time self obs =
     (let cmd = Pgrep (package_name self);
          result = run_command obs cmd
      in if returncode result = 0 \<and> strip (stdout result) \<noteq> [] then
           (case parse_pid (stdout result) of
              Inl e \<Rightarrow> (Inl e, self, [cmd])
            | Inr found \<Rightarrow>
                if found \<noteq> None \<and> found \<noteq> Some 0 then
                  let (status, self1, cmds) = get_running_status self obs (the found)
                  in (Inr status, self1, cmd # cmds)
                else
                  (Inr ((AppStatus_init import_time)\<lparr>running := False, crashed := False\<rparr>),
                   self, [cmd]))
         else
           let (found, cmds) = check_recent_crash self obs
           in (Inr ((AppStatus_init import_time)\<lparr>running := False, crashed := found\<rparr>),
               self, cmd # cmds))"

text \<open>\<^verbatim>\<open>check_app_status\<close>: the handler turns any exception into \<^verbatim>\<open>AppStatus()\<close>.\<close>

definition check_app_status ::
  "int \<Rightarrow> ProcessMonitor \<Rightarrow> observation \<Rightarrow> AppStatus \<times> ProcessMonitor \<times> command list" where
  "check_app_status import_time self obs =
     (case check_app_status_body import_time self obs of
        (Inr status, self1, cmds) \<Rightarrow> (status, self1, cmds)
      | (Inl e, self1, cmds) \<Rightarrow> (AppStatus_init import_time, self1, cmds))"

text \<open>
  The poll loop, as far as the monitor goes: one \<^verbatim>\<open>check_app_status\<close> for each
  observation, on the monitor the call before left.
\<close>

fun run_polls ::
  "int \<Rightarrow> ProcessMonitor \<Rightarrow> observation list \<Rightarrow> (AppStatus \<times> command list) list" where
  "run_polls import_time self [] = []"
| "run_polls import_time self (obs # rest) =
     (let (status, self1, cmds) = check_app_status import_time self obs
      in (status, cmds) # run_polls import_time self1 rest)"

text \<open>The census of an observation reports the PID \<open>p\<close>.\<close>

definition census_reports :: "string \<Rightarrow> observation \<Rightarrow> int \<Rightarrow> bool" where
  "census_reports pkg obs p =
     (case respond obs (Pgrep pkg) of
        Exited rc out \<Rightarrow> rc = 0 \<and> parse_pid out = Inr (Some p) \<and> p \<noteq> 0
      | Spawn_error \<Rightarrow> False)"

text \<open>The census of an observation finds no process.\<close>

definition census_empty :: "string \<Rightarrow> observation \<Rightarrow> bool" where
  "census_empty pkg obs =
     (case respond obs (Pgrep pkg) of
        Exited rc out \<Rightarrow> rc \<noteq> 0 \<or> strip out = []
      | Spawn_error \<Rightarrow> True)"

text \<open>
  The memory query of an observation for the PID \<open>p\<close> fails, or its output has no
  \<^verbatim>\<open>VmRSS:\<close> line with a number that \<^verbatim>\<open>int\<close> reads.
\<close>

definition vmrss_kb :: "string \<Rightarrow> int option" where
  "vmrss_kb line =
     (case vmrss_field line of
        Some field \<Rightarrow> (case py_int field of Inr kb \<Rightarrow> Some kb | Inl e \<Rightarrow> None)
      | None \<Rightarrow> None)"

definition memory_unreadable :: "observation \<Rightarrow> int \<Rightarrow> bool" where
  "memory_unreadable obs p =
     (case respond obs (Cat_proc_status p) of
        Exited rc out \<Rightarrow> rc \<noteq> 0 \<or> list_all (\<lambda>line. vmrss_kb line = None) (split_on CHR ''\<newline>'' out)
      | Spawn_error \<Rightarrow> True)"

text \<open>
  The two clock readings of \<^verbatim>\<open>_get_running_status\<close>, the one that starts the session
  and the one the uptime is taken from, are less than a second apart.
\<close>

definition within_a_second :: "observation \<Rightarrow> bool" where
  "within_a_second obs = (\<bar>now_uptime obs - now_reset obs\<bar> < 1000000)"

section \<open>Crash logger (logger.py)\<close>

subsection \<open>Clock and file names\<close>

text \<open>
  \<^verbatim>\<open>datetime.now()\<close> as the fields \<^verbatim>\<open>strftime\<close> and \<^verbatim>\<open>isoformat\<close> print.
\<close>

record datetime =
  year :: int
  month :: int
  day :: int
  hour :: int
  minute :: int
  second :: int
  microsecond :: int


text \<open>
  The decimal digits of a number in a field of fixed width, padded with zeros, as
  \<^verbatim>\<open>%Y\<close>, \<^verbatim>\<open>%m\<close>, \<^verbatim>\<open>%d\<close>, \<^verbatim>\<open>%H\<close>, \<^verbatim>\<open>%M\<close> and \<^verbatim>\<open>%S\<close> print the fields of a
  \<^verbatim>\<open>datetime\<close> (a number too long for the field would lose its leading digits here; no
  field within its range is).
\<close>

fun zero_padded :: "nat \<Rightarrow> int \<Rightarrow> string" where
  "zero_padded 0 n = []"
| "zero_padded (Suc w) n = zero_padded w (n div 10) @ [char_of (48 + n mod 10)]"

text \<open>\<^verbatim>\<open>strftime("%Y%m%d_%H%M%S")\<close> and \<^verbatim>\<open>strftime("%Y%m%d")\<close>.\<close>

definition strftime_Ymd :: "datetime \<Rightarrow> string" where
  "strftime_Ymd t = zero_padded 4 (year t) @ zero_padded 2 (month t) @ zero_padded 2 (day t)"

definition strftime_Ymd_HMS :: "datetime \<Rightarrow> string" where
  "strftime_Ymd_HMS t =
     strftime_Ymd t @ ''_'' @ zero_padded 2 (hour t) @ zero_padded 2 (minute t)
       @ zero_padded 2 (second t)"

text \<open>\<^verbatim>\<open>isoformat()\<close>: the microseconds are printed when they are not zero.\<close>

definition isoformat :: "datetime \<Rightarrow> string" where
  "isoformat t =
     zero_padded 4 (year t) @ ''-'' @ zero_padded 2 (month t) @ ''-'' @ zero_padded 2 (day t)
       @ ''T'' @ zero_padded 2 (hour t) @ '':'' @ zero_padded 2 (minute t) @ '':''
       @ zero_padded 2 (second t)
       @ (if microsecond t = 0 then [] else ''.'' @ zero_padded 6 (microsecond t))"


subsection \<open>Artifacts on disk\<close>

text \<open>
  What \<^verbatim>\<open>json.loads\<close> returns. Numbers are rationals, for \<^verbatim>\<open>int\<close> and \<^verbatim>\<open>float\<close> alike; an
  object lists its items, each key once.
\<close>

datatype json =
  JNull | JBool bool | JNum rat | JStr string | JArr "json list" | JObj "(string \<times> json) list"

text \<open>
  What reading a file and parsing it comes to: \<^verbatim>\<open>open\<close> or \<^verbatim>\<open>read\<close> raises,
  \<^verbatim>\<open>json.loads\<close> raises, or a value.
\<close>

datatype file_content = Unreadable | Malformed | Parsed json

record dir_entry =
  fname :: string
  st_mtime :: int
  content :: file_content

text \<open>
  The directory \<^verbatim>\<open>crash_log_dir\<close>: its regular files in the order in which the operating
  system lists them, which is the order of \<^verbatim>\<open>glob\<close>. The modification time
  \<^verbatim>\<open>st_mtime\<close> is a POSIX timestamp, in whole microseconds.
\<close>

type_synonym directory = "dir_entry list"

text \<open>\<^verbatim>\<open>glob("crash_*.log")\<close>.\<close>

definition is_crash_log :: "string \<Rightarrow> bool" where
  "is_crash_log n = (prefix ''crash_'' n \<and> suffix ''.log'' n \<and> 10 \<le> length n)"

definition glob_crash_logs :: "directory \<Rightarrow> dir_entry list" where
  "glob_crash_logs dir = filter (\<lambda>f. is_crash_log (fname f)) dir"

text \<open>
  \<^verbatim>\<open>path.stat().st_mtime\<close> and \<^verbatim>\<open>path.unlink()\<close>: both raise when the file is not there.
  On a file that is there both are taken to succeed: the process owns the directory.
\<close>

definition stat_mtime :: "string \<Rightarrow> directory \<Rightarrow> py_exception + int" where
  "stat_mtime n dir =
     (case find (\<lambda>f. fname f = n) dir of
        Some f \<Rightarrow> Inr (st_mtime f)
      | None \<Rightarrow> Inl FileNotFoundError)"

definition unlink :: "string \<Rightarrow> directory \<Rightarrow> py_exception + directory" where
  "unlink n dir =
     (if n \<in> set (map fname dir) then Inr (filter (\<lambda>f. fname f \<noteq> n) dir)
      else Inl FileNotFoundError)"

text \<open>
  Opening a file with mode \<^verbatim>\<open>'w'\<close> and writing it: a file of that name is replaced where
  it stands. Where a new name shows in the listing is up to the file system: it is listed at
  the position \<open>k\<close> (at the end, when the listing is shorter).
\<close>

definition write_file ::
  "nat \<Rightarrow> string \<Rightarrow> int \<Rightarrow> file_content \<Rightarrow> directory \<Rightarrow> directory" where
  "write_file k n t c dir =
     (if n \<in> set (map fname dir)
      then map (\<lambda>f. if fname f = n then \<lparr>fname = n, st_mtime = t, content = c\<rparr> else f) dir
      else take k dir @ [\<lparr>fname = n, st_mtime = t, content = c\<rparr>] @ drop k dir)"

subsection \<open>Retention\<close>

record config =
  app_package_name :: "string option"
  crash_log_dir :: string
  max_log_files :: int
  retention_days :: int

text \<open>
  The configuration is a dictionary of dictionaries. The key \<^verbatim>\<open>['app']['package_name']\<close>,
  which \<^verbatim>\<open>capture_crash_logs\<close> is the first to read, may be missing (\<^verbatim>\<open>None\<close>); the keys
  under \<^verbatim>\<open>['logging']\<close> are taken to be there, as integers.
\<close>

text \<open>\<^verbatim>\<open>xs[k:]\<close> and \<^verbatim>\<open>xs[:k]\<close>; a negative \<open>k\<close> counts from the end.\<close>

definition slice_from :: "int \<Rightarrow> 'a list \<Rightarrow> 'a list" where
  "slice_from k xs = (if 0 \<le> k then drop (nat k) xs else drop (length xs - nat (- k)) xs)"

definition slice_to :: "int \<Rightarrow> 'a list \<Rightarrow> 'a list" where
  "slice_to k xs = (if 0 \<le> k then take (nat k) xs else take (length xs - nat (- k)) xs)"

text \<open>
  \<^verbatim>\<open>log_files.sort(key=..., reverse=True)\<close>: newest first, and files of equal time in their
  former order (Python's sort is stable under \<^verbatim>\<open>reverse\<close> too).
\<close>

definition sort_newest_first :: "dir_entry list \<Rightarrow> dir_entry list" where
  "sort_newest_first files = sort_key (\<lambda>f. - st_mtime f) files"

text \<open>A day in microseconds, for \<^verbatim>\<open>timedelta(days=...)\<close>.\<close>

definition day_us :: int where
  "day_us = 86400000000"

text \<open>
  Naive local times, the values of \<^verbatim>\<open>datetime.now()\<close> and \<^verbatim>\<open>datetime.fromtimestamp\<close>
  that line 253 subtracts from and line 265 compares, are counted in microseconds from
  \<^verbatim>\<open>datetime.min\<close>, the start of the year 1. The last of them is \<^verbatim>\<open>datetime.max\<close>, the
  last microsecond of the year 9999, day 3652059.
\<close>

definition datetime_max :: int where
  "datetime_max = 3652059 * day_us - 1"

text \<open>
  Line 253, \<^verbatim>\<open>datetime.now() - timedelta(days=retention_days)\<close>: OverflowError when the
  days are more than \<^verbatim>\<open>timedelta\<close> holds, or the date leaves the range of \<^verbatim>\<open>datetime\<close>.
\<close>

definition cutoff_datetime :: "config \<Rightarrow> int \<Rightarrow> py_exception + int" where
  "cutoff_datetime cfg now =
     (if \<bar>retention_days cfg\<bar> > 999999999 then Inl OverflowError
      else let c = now - retention_days cfg * day_us
           in if c < 0 \<or> datetime_max < c then Inl OverflowError else Inr c)"

text \<open>
  \<^verbatim>\<open>datetime.fromtimestamp(ts)\<close>: the local time of a POSIX timestamp by the rules of the
  time zone, which \<open>local_time\<close> stands for; an exception when the year leaves the range
  of \<^verbatim>\<open>datetime\<close> (a ValueError; on some platforms an OverflowError or OSError).
\<close>

definition fromtimestamp :: "(int \<Rightarrow> int) \<Rightarrow> int \<Rightarrow> py_exception + int" where
  "fromtimestamp local_time ts =
     (let t = local_time ts in if 0 \<le> t \<and> t \<le> datetime_max then Inr t else Inl ValueError)"

text \<open>
  The two loops of \<^verbatim>\<open>_cleanup_old_logs\<close>. Each carries the directory and
  \<^verbatim>\<open>deleted_count\<close>, and stops at the first exception, which it returns with the state
  reached.
\<close>

fun unlink_each ::
  "dir_entry list \<Rightarrow> directory \<times> nat \<Rightarrow> py_exception option \<times> directory \<times> nat" where
  "unlink_each [] (dir, deleted_count) = (None, dir, deleted_count)"
| "unlink_each (old_file # rest) (dir, deleted_count) =
     (case unlink (fname old_file) dir of
        Inl e \<Rightarrow> (Some e, dir, deleted_count)
      | Inr dir1 \<Rightarrow> unlink_each rest (dir1, deleted_count + 1))"

fun unlink_expired ::
  "(int \<Rightarrow> int) \<Rightarrow> int \<Rightarrow> dir_entry list \<Rightarrow> directory \<times> nat
     \<Rightarrow> py_exception option \<times> directory \<times> nat" where
  "unlink_expired local_time cutoff_time [] (dir, deleted_count) = (None, dir, deleted_count)"
| "unlink_expired local_time cutoff_time (log_file # rest) (dir, deleted_count) =
     (case stat_mtime (fname log_file) dir of
        Inl e \<Rightarrow> (Some e, dir, deleted_count)
      | Inr mtime \<Rightarrow>
          (case fromtimestamp local_time mtime of
             Inl e \<Rightarrow> (Some e, dir, deleted_count)
           | Inr file_time \<Rightarrow>
               if file_time < cutoff_time then
                 (case unlink (fname log_file) dir of
                    Inl e \<Rightarrow> (Some e, dir, deleted_count)
                  | Inr dir1 \<Rightarrow>
                      unlink_expired local_time cutoff_time rest (dir1, deleted_count + 1))
               else unlink_expired local_time cutoff_time rest (dir, deleted_count)))"

text \<open>
  \<^verbatim>\<open>_cleanup_old_logs\<close>, given the time zone and the reading of the clock at line 253: the
  exception it caught, if any, the directory afterwards, and \<^verbatim>\<open>deleted_count\<close>. An
  exception at line 253 comes before both loops.
\<close>

definition cleanup_old_logs ::
  "config \<Rightarrow> (int \<Rightarrow> int) \<Rightarrow> int \<Rightarrow> directory
     \<Rightarrow> py_exception option \<times> directory \<times> nat" where
  "cleanup_old_logs cfg local_time now dir =
     (let log_files = sort_newest_first (glob_crash_logs dir);
          max_files = max_log_files cfg
      in case cutoff_datetime cfg now of
           Inl e \<Rightarrow> (Some e, dir, 0)
         | Inr cutoff_time \<Rightarrow>
             (case unlink_each (slice_from max_files log_files) (dir, 0) of
                (Some e, dir1, deleted_count) \<Rightarrow> (Some e, dir1, deleted_count)
              | (None, dir1, deleted_count) \<Rightarrow>
                  unlink_expired local_time cutoff_time (slice_to max_files log_files)
                    (dir1, deleted_count)))"

subsection \<open>Capture\<close>

text \<open>
  What one call of \<^verbatim>\<open>capture_crash_logs\<close> meets: the clock at line 73 and at line 84, the
  outcome of the \<^verbatim>\<open>logcat\<close> command, whether opening or writing the artifact raises, the
  modification time the file gets and where the file system lists it when its name is new,
  the clock at line 253, and the time zone.
\<close>

record capture_env =
  name_clock :: datetime
  report_clock :: datetime
  logcat :: proc_outcome
  write_fails :: bool
  write_mtime :: int
  listed_at :: nat
  sweep_clock :: int
  local_time_of :: "int \<Rightarrow> int"

text \<open>
  \<^verbatim>\<open>_get_crash_logcat\<close>: the lines of the output that are not blank; nothing when the
  command could not be run. The return code is not looked at.
\<close>

definition get_crash_logcat :: "proc_outcome \<Rightarrow> string list" where
  "get_crash_logcat outcome =
     (case outcome of
        Exited rc out \<Rightarrow>
          if out \<noteq> [] then filter (\<lambda>line. strip line \<noteq> []) (split_on CHR ''\<newline>'' (strip out))
          else []
      | Spawn_error \<Rightarrow> [])"

text \<open>\<^verbatim>\<open>crash_logs[-100:] if len(crash_logs) > 100 else crash_logs\<close>.\<close>

definition last_100 :: "'a list \<Rightarrow> 'a list" where
  "last_100 xs = (if length xs > 100 then slice_from (- 100) xs else xs)"

text \<open>
  \<^verbatim>\<open>_write_json_file\<close>: an exception is printed and swallowed, and the directory stays as it
  was. What is written is what \<^verbatim>\<open>json.loads\<close> reads back.
\<close>

definition write_json_file :: "capture_env \<Rightarrow> string \<Rightarrow> json \<Rightarrow> directory \<Rightarrow> directory" where
  "write_json_file env n data dir =
     (if write_fails env then dir
      else write_file (listed_at env) n (write_mtime env) (Parsed data) dir)"

text \<open>The path \<^verbatim>\<open>str(self.crash_log_dir / name)\<close>.\<close>

definition path_in :: "string \<Rightarrow> string \<Rightarrow> string" where
  "path_in d n = d @ ''/'' @ n"

definition crash_file_name :: "datetime \<Rightarrow> string" where
  "crash_file_name t = ''crash_'' @ strftime_Ymd_HMS t @ ''.log''"

text \<open>The dictionary \<^verbatim>\<open>crash_report\<close>; reading the package name raises KeyError when the key
  is missing.\<close>

definition crash_report ::
  "config \<Rightarrow> AppStatus \<Rightarrow> capture_env \<Rightarrow> string list \<Rightarrow> py_exception + json" where
  "crash_report cfg status env crash_logs =
     (case app_package_name cfg of
        None \<Rightarrow> Inl KeyError
      | Some pkg \<Rightarrow>
          Inr (JObj
            [(''timestamp'', JStr (isoformat (report_clock env))),
             (''package_name'', JStr pkg),
             (''crash_type'', JStr (detect_crash_type crash_logs)),
             (''uptime_before_crash'', JNum (of_int (uptime status))),
             (''memory_usage'', JNum (memory_mb status)),
             (''pid'', case pid status of None \<Rightarrow> JNull | Some p \<Rightarrow> JNum (of_int p)),
             (''logcat_lines'', JNum (of_nat (length crash_logs))),
             (''crash_logs'', JArr (map JStr (last_100 crash_logs)))]))"

text \<open>
  \<^verbatim>\<open>capture_crash_logs\<close>: the string returned and the directory afterwards. The handler of
  line 102 returns the empty string.
\<close>

definition capture_crash_logs ::
  "config \<Rightarrow> AppStatus \<Rightarrow> capture_env \<Rightarrow> directory \<Rightarrow> string \<times> directory" where
  "capture_crash_logs cfg status env dir =
     (let crash_file = crash_file_name (name_clock env);
          crash_logs = get_crash_logcat (logcat env)
      in case crash_report cfg status env crash_logs of
           Inl e \<Rightarrow> ([], dir)
         | Inr report \<Rightarrow>
             let dir1 = write_json_file env crash_file report dir;
                 (caught, dir2, deleted_count) =
                   cleanup_old_logs cfg (local_time_of env) (sweep_clock env) dir1
             in (path_in (crash_log_dir cfg) crash_file, dir2))"

subsection \<open>Statistics\<close>

text \<open>
  The keys of the dictionary \<^verbatim>\<open>crash_types\<close>: \<^verbatim>\<open>None\<close>, numbers (with \<^verbatim>\<open>True\<close> and
  \<^verbatim>\<open>False\<close> the same keys as 1 and 0) and strings. A list or a dictionary is not
  hashable: TypeError.
\<close>

datatype dict_key = KNone | KNum rat | KStr string

fun key_of :: "json \<Rightarrow> py_exception + dict_key" where
  "key_of JNull = Inr KNone"
| "key_of (JBool b) = Inr (KNum (if b then 1 else 0))"
| "key_of (JNum x) = Inr (KNum x)"
| "key_of (JStr s) = Inr (KStr s)"
| "key_of (JArr xs) = Inl TypeError"
| "key_of (JObj kvs) = Inl TypeError"

text \<open>
  \<^verbatim>\<open>crash_types[k] = crash_types.get(k, 0) + 1\<close>, the dictionary as the list of its items
  in the order of insertion.
\<close>

fun bump :: "dict_key \<Rightarrow> (dict_key \<times> nat) list \<Rightarrow> (dict_key \<times> nat) list" where
  "bump k [] = [(k, 1)]"
| "bump k ((k', n) # rest) = (if k = k' then (k', n + 1) # rest else (k', n) # bump k rest)"

text \<open>
  The body of the inner \<^verbatim>\<open>try\<close> for one file: the key to count, or the exception that the
  bare \<^verbatim>\<open>except\<close> passes over.
\<close>

definition crash_type_of :: "dir_entry \<Rightarrow> py_exception + dict_key" where
  "crash_type_of log_file =
     (case content log_file of
        Unreadable \<Rightarrow> Inl FileNotFoundError
      | Malformed \<Rightarrow> Inl ValueError
      | Parsed (JObj kvs) \<Rightarrow>
          key_of (case map_of kvs ''crash_type'' of Some v \<Rightarrow> v | None \<Rightarrow> JStr ''unknown'')
      | Parsed other \<Rightarrow> Inl AttributeError)"

fun count_crash_types :: "dir_entry list \<Rightarrow> (dict_key \<times> nat) list \<Rightarrow> (dict_key \<times> nat) list" where
  "count_crash_types [] crash_types = crash_types"
| "count_crash_types (log_file # rest) crash_types =
     (case crash_type_of log_file of
        Inr k \<Rightarrow> count_crash_types rest (bump k crash_types)
      | Inl e \<Rightarrow> count_crash_types rest crash_types)"

record statistics =
  total_crashes :: nat
  today_crashes :: nat
  recent_crash_types :: "(dict_key \<times> nat) list"
  oldest_log :: int
  newest_log :: int

text \<open>\<^verbatim>\<open>min(xs) if xs else 0\<close> and \<^verbatim>\<open>max(xs) if xs else 0\<close>.\<close>

definition min_or_0 :: "int list \<Rightarrow> int" where
  "min_or_0 xs = (case xs of [] \<Rightarrow> 0 | x # rest \<Rightarrow> fold min rest x)"

definition max_or_0 :: "int list \<Rightarrow> int" where
  "max_or_0 xs = (case xs of [] \<Rightarrow> 0 | x # rest \<Rightarrow> fold max rest x)"

text \<open>
  \<^verbatim>\<open>get_crash_statistics\<close>, given the reading of the clock at line 283. The files are
  taken as \<^verbatim>\<open>glob\<close> lists them; the slice \<^verbatim>\<open>[-10:]\<close> is of that list. Every file
  that \<^verbatim>\<open>glob\<close> lists is there for \<^verbatim>\<open>stat\<close>, so nothing reaches the handler of line
  308, which would return the empty dictionary.
\<close>

definition get_crash_statistics :: "datetime \<Rightarrow> directory \<Rightarrow> statistics" where
  "get_crash_statistics now dir =
     (let log_files = glob_crash_logs dir;
          today = strftime_Ymd now;
          today_files = filter (\<lambda>f. sublist today (fname f)) log_files;
          crash_types = count_crash_types (slice_from (- 10) log_files) []
      in \<lparr>total_crashes = length log_files,
          today_crashes = length today_files,
          recent_crash_types = crash_types,
          oldest_log = min_or_0 (map st_mtime log_files),
          newest_log = max_or_0 (map st_mtime log_files)\<rparr>)"

subsection \<open>Retention as the specification words it\<close>

text \<open>
  The artifacts sorted newest first; the \<^verbatim>\<open>max_files\<close> most recent of them; those beyond;
  the time before which a file is older than the retention period; the files that are left
  when those beyond and the older ones of the most recent are gone.
\<close>

definition most_recent :: "config \<Rightarrow> directory \<Rightarrow> dir_entry list" where
  "most_recent cfg dir = take (nat (max_log_files cfg)) (sort_newest_first (glob_crash_logs dir))"

definition beyond_limit :: "config \<Rightarrow> directory \<Rightarrow> dir_entry list" where
  "beyond_limit cfg dir = drop (nat (max_log_files cfg)) (sort_newest_first (glob_crash_logs dir))"

definition cutoff :: "config \<Rightarrow> int \<Rightarrow> int" where
  "cutoff cfg now = now - retention_days cfg * day_us"

definition retained :: "config \<Rightarrow> (int \<Rightarrow> int) \<Rightarrow> int \<Rightarrow> directory \<Rightarrow> directory" where
  "retained cfg local_time now dir =
     filter (\<lambda>f. f \<notin> set (beyond_limit cfg dir)
                 \<and> \<not> (f \<in> set (most_recent cfg dir)
                        \<and> local_time (st_mtime f) < cutoff cfg now)) dir"





subsection \<open>The histogram as the specification words it\<close>

text \<open>
  The histogram over the 10 most recently modified artifacts: the files sorted newest
  first, the first ten of them counted.
\<close>

definition most_recent_crash_types :: "directory \<Rightarrow> (dict_key \<times> nat) list" where
  "most_recent_crash_types dir =
     count_crash_types (take 10 (sort_newest_first (glob_crash_logs dir))) []"

subsection \<open>The classification as the specification words it\<close>

text \<open>
  The specification's \<open>classify\<close>: an ordered list of rules, each a condition on the
  text and a category; the first rule whose condition holds gives the category. A
  condition is built from case-insensitive substring tests.
\<close>

definition ci_contains :: "string \<Rightarrow> string \<Rightarrow> bool" where
  "ci_contains pat txt = sublist (upper pat) (upper txt)"

datatype cond = Has string | Either cond cond | Both cond cond

fun holds :: "cond \<Rightarrow> string \<Rightarrow> bool" where
  "holds (Has pat) txt = ci_contains pat txt"
| "holds (Either a b) txt = (holds a txt \<or> holds b txt)"
| "holds (Both a b) txt = (holds a txt \<and> holds b txt)"

definition severity_rules :: "(cond \<times> string) list" where
  "severity_rules =
     [(Has ''FATAL EXCEPTION'', ''fatal_exception''),
      (Either (Has ''ANR'') (Has ''APPLICATION NOT RESPONDING''), ''anr''),
      (Has ''OUTOFMEMORYERROR'', ''oom''),
      (Both (Has ''SIGNAL'') (Has ''SIGSEGV''), ''native_crash''),
      (Has ''SIGABRT'', ''abort''),
      (Has ''SIGKILL'', ''killed'')]"

fun first_match :: "(cond \<times> string) list \<Rightarrow> string \<Rightarrow> string option" where
  "first_match [] txt = None"
| "first_match ((c, label) # rules) txt =
     (if holds c txt then Some label else first_match rules txt)"

definition classify :: "string list \<Rightarrow> string" where
  "classify logs =
     (if logs = [] then ''process_missing''
      else case first_match severity_rules (join ''\<newline>'' logs) of
             Some label \<Rightarrow> label
           | None \<Rightarrow> ''unknown'')"

definition matched_categories :: "string list" where
  "matched_categories =
     [''fatal_exception'', ''anr'', ''oom'', ''native_crash'', ''abort'', ''killed'',
      ''unknown'']"

section \<open>Sample inputs\<close>

text \<open>\<^verbatim>\<open>ProcessMonitor.__init__\<close>: no PID and no session yet.\<close>

definition ProcessMonitor_init :: "string \<Rightarrow> ProcessMonitor" where
  "ProcessMonitor_init pkg = \<lparr>package_name = pkg, last_pid = None, start_time = None\<rparr>"

text \<open>
  A device that answers \<^verbatim>\<open>pgrep\<close> and \<^verbatim>\<open>cat /proc/PID/status\<close> with the given outputs and
  finds nothing in the log, met at time \<open>t\<close>.
\<close>

definition device_up :: "string \<Rightarrow> string \<Rightarrow> int \<Rightarrow> observation" where
  "device_up pgrep_out status_out t =
     \<lparr>respond = (\<lambda>cmd. case cmd of
                   Pgrep pkg \<Rightarrow> Exited 0 pgrep_out
                 | Cat_proc_status p \<Rightarrow> Exited 0 status_out
                 | Logcat_grep pattern \<Rightarrow> Exited 1 []),
      now_reset = t, now_uptime = t + 150, now_stamp = t + 300\<rparr>"

text \<open>A device without the process, whose log answers each pattern with the given output.\<close>

definition device_down :: "string \<Rightarrow> int \<Rightarrow> observation" where
  "device_down logcat_out t =
     \<lparr>respond = (\<lambda>cmd. case cmd of
                   Pgrep pkg \<Rightarrow> Exited 1 []
                 | Cat_proc_status p \<Rightarrow> Spawn_error
                 | Logcat_grep pattern \<Rightarrow> (if logcat_out = [] then Exited 1 [] else Exited 0 logcat_out)),
      now_reset = t, now_uptime = t + 150, now_stamp = t + 300\<rparr>"

definition status_2048_kb :: string where
  "status_2048_kb = ''Name:   app\<newline>VmRSS:     2048 kB\<newline>Threads: 31\<newline>''"

text \<open>A configuration with the package name present.\<close>

definition sample_config :: "int \<Rightarrow> int \<Rightarrow> config" where
  "sample_config max_files days =
     \<lparr>app_package_name = Some ''com.example.app'', crash_log_dir = ''/data/crash_logs'',
      max_log_files = max_files, retention_days = days\<rparr>"

text \<open>The snapshot of a crash, as \<^verbatim>\<open>check_app_status\<close> returns it.\<close>

definition crashed_status :: AppStatus where
  "crashed_status = (AppStatus_init 0)\<lparr>crashed := True\<rparr>"

text \<open>A time zone that keeps UTC: the 719162 days from the year 1 to 1970 are added.\<close>

definition utc :: "int \<Rightarrow> int" where
  "utc ts = ts + 719162 * day_us"

text \<open>
  A capture on 9 March 2024 at 07:05, at the given second and microsecond, with a log of
  one fatal exception; the file gets the modification time \<open>t\<close> and is listed first, and
  the sweep starts a millisecond later.
\<close>

definition capture_at :: "int \<Rightarrow> int \<Rightarrow> bool \<Rightarrow> int \<Rightarrow> capture_env" where
  "capture_at s us fails t =
     \<lparr>name_clock = \<lparr>year = 2024, month = 3, day = 9, hour = 7, minute = 5, second = s,
                     microsecond = us\<rparr>,
      report_clock = \<lparr>year = 2024, month = 3, day = 9, hour = 7, minute = 5, second = s,
                       microsecond = us + 40\<rparr>,
      logcat = Exited 0 ''E com.example.app: FATAL EXCEPTION: main\<newline>'',
      write_fails = fails,
      write_mtime = t,
      listed_at = 0,
      sweep_clock = utc (t + 1000),
      local_time_of = utc\<rparr>"

text \<open>
  An artifact with a crash type, named after a second of 1 January 2024, modified at the
  start of the given day after 1 January 1970.
\<close>

definition artifact :: "int \<Rightarrow> int \<Rightarrow> string \<Rightarrow> dir_entry" where
  "artifact n d crash_type =
     \<lparr>fname = ''crash_20240101_0000'' @ zero_padded 2 n @ ''.log'',
      st_mtime = d * day_us,
      content = Parsed (JObj [(''crash_type'', JStr crash_type)])\<rparr>"


text \<open>
  Eleven artifacts that the operating system lists newest first: the newest an \<^verbatim>\<open>oom\<close>,
  the ten older ones \<^verbatim>\<open>anr\<close>.
\<close>

definition eleven_newest_first :: directory where
  "eleven_newest_first =
     artifact 11 100 ''oom'' # map (\<lambda>n. artifact (10 - n) (99 - n) ''anr'') [0..9]"

section \<open>Facts about text\<close>

lemma upper_char_idem: "concat (map upper_char (upper_char c)) = upper_char c"
proof -
  have small: "(of_char c :: nat) < 256"
    by simp
  show ?thesis
    using small by (auto simp: upper_char_def Let_def)
qed

lemma upper_append: "upper (xs @ ys) = upper xs @ upper ys"
  by (simp add: upper_def)

lemma upper_idem: "upper (upper s) = upper s"
proof (induction s)
  case Nil
  show ?case by (simp add: upper_def)
next
  case (Cons c s)
  have "upper (upper (c # s)) = upper (upper_char c @ upper s)"
    by (simp add: upper_def)
  also have "\<dots> = upper (upper_char c) @ upper (upper s)"
    by (rule upper_append)
  also have "upper (upper_char c) = upper_char c"
    using upper_char_idem by (simp add: upper_def)
  finally show ?case
    using Cons.IH by (simp add: upper_def)
qed

lemma upper_join: "upper (join sep xs) = join (upper sep) (map upper xs)"
  by (induction sep xs rule: join.induct) (simp_all add: upper_append, simp add: upper_def)

lemma upper_newline: "upper ''\<newline>'' = ''\<newline>''"
  by (simp add: upper_def upper_char_def)

lemma upper_patterns:
  "upper ''FATAL EXCEPTION'' = ''FATAL EXCEPTION''"
  "upper ''ANR'' = ''ANR''"
  "upper ''APPLICATION NOT RESPONDING'' = ''APPLICATION NOT RESPONDING''"
  "upper ''OUTOFMEMORYERROR'' = ''OUTOFMEMORYERROR''"
  "upper ''SIGNAL'' = ''SIGNAL''"
  "upper ''SIGSEGV'' = ''SIGSEGV''"
  "upper ''SIGABRT'' = ''SIGABRT''"
  "upper ''SIGKILL'' = ''SIGKILL''"
  by (simp_all add: upper_def upper_char_def)

lemma detect_crash_type_classify: "detect_crash_type logs = classify logs"
  by (simp add: detect_crash_type_def classify_def severity_rules_def ci_contains_def
      upper_patterns Let_def)

lemma detect_crash_type_upper: "detect_crash_type (map upper logs) = detect_crash_type logs"
proof -
  have "upper (join ''\<newline>'' (map upper logs)) = upper (join ''\<newline>'' logs)"
    using upper_join [of "''\<newline>''" "map upper logs"] upper_join [of "''\<newline>''" logs]
    by (simp add: upper_newline upper_idem o_def)
  then show ?thesis
    by (simp add: detect_crash_type_def)
qed

section \<open>Facts about the monitor\<close>

lemma parse_pid_nonempty: "parse_pid out = Inr (Some p) \<Longrightarrow> strip out \<noteq> []"
  by (auto simp: parse_pid_def isdigit_def split: if_splits)

lemma get_running_status_eq:
  "get_running_status self obs p =
     (\<lparr>running = True, crashed = False, pid = Some p,
       uptime = (case start_time (track_pid self obs p) of
                   Some t0 \<Rightarrow> whole_seconds (now_uptime obs - t0)
                 | None \<Rightarrow> 0),
       memory_mb = fst (get_memory_usage obs p),
       timestamp = now_stamp obs\<rparr>,
      track_pid self obs p, [Cat_proc_status p])"
  by (simp add: get_running_status_def get_memory_usage_def Let_def)

lemma check_app_status_body_census:
  assumes "census_reports (package_name self) obs p"
  shows "check_app_status_body import_time self obs =
           (Inr (fst (get_running_status self obs p)), track_pid self obs p,
            [Pgrep (package_name self), Cat_proc_status p])"
proof -
  from assms obtain out where
    out: "respond obs (Pgrep (package_name self)) = Exited 0 out"
    and parsed: "parse_pid out = Inr (Some p)" and nz: "p \<noteq> 0"
    by (auto simp: census_reports_def split: proc_outcome.splits)
  have "strip out \<noteq> []"
    using parsed by (rule parse_pid_nonempty)
  then show ?thesis
    using out parsed nz
    by (simp add: check_app_status_body_def run_command_def get_running_status_eq Let_def)
qed

lemma check_app_status_census:
  assumes "census_reports (package_name self) obs p"
  shows "check_app_status import_time self obs =
           (fst (get_running_status self obs p), track_pid self obs p,
            [Pgrep (package_name self), Cat_proc_status p])"
  using check_app_status_body_census [OF assms] by (simp add: check_app_status_def)

lemma check_app_status_body_empty:
  assumes "census_empty (package_name self) obs"
  shows "check_app_status_body import_time self obs =
           (Inr ((AppStatus_init import_time)\<lparr>crashed := fst (check_recent_crash self obs)\<rparr>),
            self, Pgrep (package_name self) # snd (check_recent_crash self obs))"
  using assms
  by (auto simp: census_empty_def check_app_status_body_def run_command_def AppStatus_init_def
      Let_def split: proc_outcome.splits prod.splits)

lemma check_app_status_cases:
  "(\<exists>p. p \<noteq> 0 \<and> check_app_status import_time self obs =
           (fst (get_running_status self obs p), track_pid self obs p,
            [Pgrep (package_name self), Cat_proc_status p]))
   \<or> (\<exists>found cmds. check_app_status import_time self obs =
           ((AppStatus_init import_time)\<lparr>crashed := found\<rparr>, self, cmds))"
  by (auto simp: check_app_status_def check_app_status_body_def get_running_status_eq
      AppStatus_init_def Let_def split: sum.splits prod.splits option.splits)

lemma whole_seconds_mono: "a \<le> b \<Longrightarrow> whole_seconds a \<le> whole_seconds b"
proof -
  assume le: "a \<le> b"
  have pos: "0 \<le> x div 1000000" if "0 \<le> x" for x :: int
    using that by (simp add: pos_imp_zdiv_nonneg_iff)
  show ?thesis
  proof (cases "0 \<le> a")
    case True
    with le show ?thesis
      by (simp add: whole_seconds_def zdiv_mono1)
  next
    case False
    show ?thesis
    proof (cases "0 \<le> b")
      case True
      have "0 \<le> (- a) div 1000000"
        using False by (intro pos) simp
      moreover have "0 \<le> b div 1000000"
        using True by (rule pos)
      ultimately show ?thesis
        using False True by (simp add: whole_seconds_def)
    next
      case b: False
      have "(- b) div 1000000 \<le> (- a) div 1000000"
        using le by (intro zdiv_mono1) simp_all
      then show ?thesis
        using False b by (simp add: whole_seconds_def)
    qed
  qed
qed

lemma whole_seconds_zero: "\<bar>d\<bar> < 1000000 \<Longrightarrow> whole_seconds d = 0"
  by (auto simp: whole_seconds_def)

lemma track_pid_simps:
  "package_name (track_pid self obs p) = package_name self"
  "last_pid (track_pid self obs p) = Some p"
  "last_pid self = Some p \<Longrightarrow> track_pid self obs p = self"
  "last_pid self \<noteq> Some p \<Longrightarrow> start_time (track_pid self obs p) = Some (now_reset obs)"
  by (simp_all add: track_pid_def)

lemma run_polls_same_pid:
  assumes "\<forall>obs\<in>set obss. census_reports (package_name self) obs p"
    and "last_pid self = Some p"
  shows "run_polls import_time self obss =
           map (\<lambda>obs. (fst (get_running_status self obs p),
                       [Pgrep (package_name self), Cat_proc_status p])) obss"
  using assms
proof (induction obss)
  case Nil
  show ?case by simp
next
  case (Cons obs rest)
  have "census_reports (package_name self) obs p"
    using Cons.prems by simp
  then have step: "check_app_status import_time self obs =
      (fst (get_running_status self obs p), self,
       [Pgrep (package_name self), Cat_proc_status p])"
    using Cons.prems(2) by (simp add: check_app_status_census track_pid_simps)
  show ?case
    using Cons step by simp
qed

lemma sorted_map_mono_fun:
  fixes f :: "'a \<Rightarrow> int" and h :: "int \<Rightarrow> int"
  assumes "sorted (map f xs)" and "\<And>a b. a \<le> b \<Longrightarrow> h a \<le> h b"
  shows "sorted (map (\<lambda>x. h (f x)) xs)"
  using assms by (induction xs) auto

lemma memory_unreadable_zero:
  assumes "memory_unreadable obs p"
  shows "fst (get_memory_usage obs p) = 0"
proof -
  have scan: "list_all (\<lambda>line. vmrss_kb line = None) ls \<Longrightarrow>
      scan_status_lines ls = Inr None \<or> (\<exists>e. scan_status_lines ls = Inl e)" for ls
    by (induction ls) (auto simp: vmrss_kb_def split: option.splits sum.splits)
  show ?thesis
  proof (cases "respond obs (Cat_proc_status p)")
    case Spawn_error
    then show ?thesis
      by (simp add: get_memory_usage_def run_command_def)
  next
    case (Exited rc out)
    show ?thesis
    proof (cases "rc = 0")
      case True
      with assms Exited have "list_all (\<lambda>line. vmrss_kb line = None) (split_on CHR ''\<newline>'' out)"
        by (simp add: memory_unreadable_def)
      from scan [OF this] show ?thesis
        using Exited True by (auto simp: get_memory_usage_def run_command_def)
    next
      case False
      with Exited show ?thesis
        by (simp add: get_memory_usage_def run_command_def)
    qed
  qed
qed

lemma new_session_step:
  assumes "census_reports (package_name self) obs p" and "last_pid self \<noteq> Some p"
  shows "check_app_status import_time self obs =
           (\<lparr>running = True, crashed = False, pid = Some p,
             uptime = whole_seconds (now_uptime obs - now_reset obs),
             memory_mb = fst (get_memory_usage obs p), timestamp = now_stamp obs\<rparr>,
            self\<lparr>last_pid := Some p, start_time := Some (now_reset obs)\<rparr>,
            [Pgrep (package_name self), Cat_proc_status p])"
  using assms by (simp add: check_app_status_census get_running_status_eq track_pid_def)

lemma run_polls_constant_pid:
  assumes "\<forall>obs\<in>set (ob # rest). census_reports (package_name self) obs p"
  shows "run_polls import_time self (ob # rest) =
      map (\<lambda>obs. (fst (get_running_status (track_pid self ob p) obs p),
                  [Pgrep (package_name self), Cat_proc_status p])) (ob # rest)"
proof -
  let ?mid = "track_pid self ob p"
  have first: "census_reports (package_name self) ob p"
    using assms by simp
  have later: "\<forall>obs\<in>set rest. census_reports (package_name ?mid) obs p"
    using assms by (simp add: track_pid_simps(1))
  have same: "last_pid ?mid = Some p"
    by (rule track_pid_simps(2))
  have again: "track_pid ?mid ob p = ?mid"
    using same by (rule track_pid_simps(3))
  have head: "fst (get_running_status ?mid ob p) = fst (get_running_status self ob p)"
    by (simp only: get_running_status_eq again fst_conv)
  have "run_polls import_time self (ob # rest) =
      (fst (get_running_status self ob p), [Pgrep (package_name self), Cat_proc_status p])
      # run_polls import_time ?mid rest"
    by (simp add: check_app_status_census [OF first])
  also have "run_polls import_time ?mid rest =
      map (\<lambda>obs. (fst (get_running_status ?mid obs p),
                  [Pgrep (package_name ?mid), Cat_proc_status p])) rest"
    using later same by (rule run_polls_same_pid)
  finally show ?thesis
    by (simp only: head track_pid_simps(1) list.map)
qed

lemma uptime_get_running_status:
  "uptime (fst (get_running_status self obs p)) =
     (case start_time (track_pid self obs p) of
        Some t0 \<Rightarrow> whole_seconds (now_uptime obs - t0)
      | None \<Rightarrow> 0)"
  by (simp add: get_running_status_eq)

lemma whole_seconds_zero_iff: "whole_seconds d = 0 \<longleftrightarrow> \<bar>d\<bar> < 1000000"
  by (auto simp: whole_seconds_def div_eq_0_iff zdiv_eq_0_iff)

section \<open>Facts about file names\<close>

lemma length_zero_padded: "length (zero_padded w n) = w"
  by (induction w n rule: zero_padded.induct) simp_all





lemma is_crash_log_name: "is_crash_log (crash_file_name t)"
  by (simp add: is_crash_log_def crash_file_name_def strftime_Ymd_HMS_def strftime_Ymd_def
      length_zero_padded suffix_def)

section \<open>Facts about retention\<close>










lemma sort_newest_first_props:
  "set (sort_newest_first fs) = set fs"
  "length (sort_newest_first fs) = length fs"
  "mset (sort_newest_first fs) = mset fs"
  "sorted_wrt (\<lambda>a b. st_mtime b \<le> st_mtime a) (sort_newest_first fs)"
proof -
  show "set (sort_newest_first fs) = set fs" "length (sort_newest_first fs) = length fs"
    "mset (sort_newest_first fs) = mset fs"
    by (simp_all add: sort_newest_first_def)
  have "sorted (map (\<lambda>f. - st_mtime f) (sort_newest_first fs))"
    by (simp add: sort_newest_first_def)
  then show "sorted_wrt (\<lambda>a b. st_mtime b \<le> st_mtime a) (sort_newest_first fs)"
    by (simp add: sorted_wrt_map)
qed






lemma retained_all:
  assumes "int (length (glob_crash_logs dir)) \<le> max_log_files cfg"
    and "\<forall>f\<in>set (glob_crash_logs dir). cutoff cfg now \<le> local_time (st_mtime f)"
  shows "retained cfg local_time now dir = dir"
proof -
  have none: "beyond_limit cfg dir = []"
    using assms(1) by (simp add: beyond_limit_def sort_newest_first_props(2))
  have "set (most_recent cfg dir) \<subseteq> set (glob_crash_logs dir)"
    using set_take_subset [of "nat (max_log_files cfg)" "sort_newest_first (glob_crash_logs dir)"]
    by (simp add: most_recent_def sort_newest_first_props(1))
  then have fresh: "\<not> (f \<in> set (most_recent cfg dir)
      \<and> local_time (st_mtime f) < cutoff cfg now)" for f
    using assms(2) by fastforce
  show ?thesis
    by (simp add: retained_def none fresh)
qed






section \<open>Facts about writing\<close>







section \<open>Claims\<close>

text \<open>
  C1. Classification is a total function of the list of diagnostic lines and follows the
  ordered severity list, first match wins: it equals \<open>classify\<close>, the rule list of the
  specification searched in order with case-insensitive substring tests over the lines
  joined by newlines. Upper-casing the lines does not change the category. The empty list,
  and only it, gives \<open>process_missing\<close>; every other input gives one of the seven other
  categories, \<open>unknown\<close> when no rule matches. Text that holds both \<open>SIGABRT\<close> and
  \<open>FATAL EXCEPTION\<close>, in any letter case, is a \<open>fatal_exception\<close>.
\<close>

theorem detect_crash_type_first_match_wins:
  "detect_crash_type logs = classify logs
   \<and> detect_crash_type (map upper logs) = detect_crash_type logs
   \<and> (logs = [] \<longrightarrow> detect_crash_type logs = ''process_missing'')
   \<and> (logs \<noteq> [] \<longrightarrow> detect_crash_type logs \<in> set matched_categories)
   \<and> (logs \<noteq> [] \<and> first_match severity_rules (join ''\<newline>'' logs) = None
        \<longrightarrow> detect_crash_type logs = ''unknown'')
   \<and> (ci_contains ''SIGABRT'' (join ''\<newline>'' logs)
        \<and> ci_contains ''FATAL EXCEPTION'' (join ''\<newline>'' logs)
        \<longrightarrow> detect_crash_type logs = ''fatal_exception'')"
proof -
  have nonempty: "logs \<noteq> []" if "ci_contains ''SIGABRT'' (join ''\<newline>'' logs)"
  proof
    assume "logs = []"
    with that have "sublist ''SIGABRT'' (upper [])"
      by (simp add: ci_contains_def upper_patterns)
    then show False
      by (simp add: upper_def)
  qed
  have fatal: "detect_crash_type logs = ''fatal_exception''"
    if "ci_contains ''SIGABRT'' (join ''\<newline>'' logs)"
      and "ci_contains ''FATAL EXCEPTION'' (join ''\<newline>'' logs)"
    using that nonempty
    by (simp add: detect_crash_type_def ci_contains_def upper_patterns)
  have cats: "detect_crash_type logs \<in> set matched_categories" if "logs \<noteq> []"
    using that by (simp add: detect_crash_type_def matched_categories_def Let_def)
  have unknown: "detect_crash_type logs = ''unknown''"
    if "logs \<noteq> []" and "first_match severity_rules (join ''\<newline>'' logs) = None"
    using that by (simp add: detect_crash_type_classify classify_def)
  show ?thesis
    using fatal cats unknown
    by (simp add: detect_crash_type_classify [symmetric] detect_crash_type_upper)
      (simp add: detect_crash_type_def)
qed

theorem detect_crash_type_first_match_wins_witness:
  "detect_crash_type [''libc: sigabrt'', ''Fatal Exception: main''] = ''fatal_exception''
   \<and> detect_crash_type [''libc: sigabrt'', ''Fatal Exception: main'']
       = classify [''libc: sigabrt'', ''Fatal Exception: main'']
   \<and> detect_crash_type [''libc: sigabrt'', ''Fatal Exception: main'']
       \<in> set matched_categories
   \<and> detect_crash_type [''''] = ''unknown''
   \<and> detect_crash_type [] = ''process_missing''"
proof -
  let ?both = "[''libc: sigabrt'', ''Fatal Exception: main'']"
  have a: "ci_contains ''SIGABRT'' (join ''\<newline>'' ?both)"
    by code_simp
  have b: "ci_contains ''FATAL EXCEPTION'' (join ''\<newline>'' ?both)"
    by code_simp
  have c: "?both \<noteq> []"
    by simp
  have d: "[''''] \<noteq> ([] :: string list)"
    by simp
  have e: "first_match severity_rules (join ''\<newline>'' ['''']) = None"
    by code_simp
  have "detect_crash_type ?both = ''fatal_exception''"
    and "detect_crash_type ?both = classify ?both"
    and "detect_crash_type ?both \<in> set matched_categories"
    using detect_crash_type_first_match_wins [of ?both] a b c by blast+
  moreover have "detect_crash_type [''''] = ''unknown''"
    using detect_crash_type_first_match_wins [of "['''']"] d e by blast
  moreover have "detect_crash_type [] = ''process_missing''"
    using detect_crash_type_first_match_wins [of "[]"] by blast
  ultimately show ?thesis
    by blast
qed







text \<open>
  C4, at the failing input: opening the artifact for writing raises. \<^verbatim>\<open>_write_json_file\<close>
  swallows the exception, and \<^verbatim>\<open>capture_crash_logs\<close> returns the path of a file that was
  never written, not the empty string.
\<close>

theorem failed_write_returns_path:
  "capture_crash_logs (sample_config 5 30) crashed_status
     (capture_at 1 120000 True 1000000000) []
   = (''/data/crash_logs/crash_20240309_070501.log'', [])"
  by code_simp

text \<open>
  C5, at the failing input: eleven artifacts that the directory lists newest first. The
  histogram of \<^verbatim>\<open>get_crash_statistics\<close> counts the last ten of the listing, which are the
  ten oldest, and misses the newest; the histogram over the ten most recently modified
  counts it.
\<close>

theorem histogram_follows_listing_order:
  "recent_crash_types
     (get_crash_statistics
        \<lparr>year = 2024, month = 3, day = 9, hour = 7, minute = 5, second = 1, microsecond = 0\<rparr>
        eleven_newest_first)
     = [(KStr ''anr'', 10)]
   \<and> most_recent_crash_types eleven_newest_first = [(KStr ''oom'', 1), (KStr ''anr'', 9)]"
  by code_simp

text \<open>
  C6. As written the claim fails: the session start and the uptime come from two readings
  of the clock, at line 100 and at line 104, and the uptime of the snapshot is what lies
  between them. With the readings two and a half seconds apart, the first evaluation of a
  new PID has uptime 2.
\<close>

theorem new_pid_uptime_two_seconds:
  "uptime (fst (check_app_status 0 (ProcessMonitor_init ''com.example.app'')
             ((device_up ''4242\<newline>'' status_2048_kb 10000000)\<lparr>now_uptime := 12500000\<rparr>))) = 2
   \<and> last_pid (ProcessMonitor_init ''com.example.app'') \<noteq> Some 4242
   \<and> census_reports ''com.example.app''
        ((device_up ''4242\<newline>'' status_2048_kb 10000000)\<lparr>now_uptime := 12500000\<rparr>) 4242"
proof -
  let ?obs = "(device_up ''4242\<newline>'' status_2048_kb 10000000)\<lparr>now_uptime := 12500000\<rparr>"
  have "uptime (fst (check_app_status 0 (ProcessMonitor_init ''com.example.app'') ?obs)) = 2"
    by code_simp
  moreover have "last_pid (ProcessMonitor_init ''com.example.app'') \<noteq> Some 4242"
    by (simp add: ProcessMonitor_init_def)
  moreover have "census_reports ''com.example.app'' ?obs 4242"
    by code_simp
  ultimately show ?thesis
    by (intro conjI)
qed

text \<open>
  C6, amended. When the census reports a PID \<open>p\<close> other than the stored one (the stored
  one may be none at all), \<^verbatim>\<open>check_app_status\<close> stores \<open>p\<close>, sets the session start to
  the clock reading of line 100, and the snapshot is running with PID \<open>p\<close> and an uptime
  of the whole seconds between that reading and the reading of line 104: 0 exactly when
  the two readings are less than a second apart. So of two consecutive evaluations that
  report the PIDs \<open>p\<close> and \<open>q \<noteq> p\<close>, the second starts a session again, with the uptime
  between its own two readings.
\<close>

theorem pid_change_resets_uptime:
  "(census_reports (package_name self) obs p \<and> last_pid self \<noteq> Some p \<longrightarrow>
      (\<exists>status self1 cmds.
         check_app_status import_time self obs = (status, self1, cmds)
         \<and> last_pid self1 = Some p \<and> start_time self1 = Some (now_reset obs)
         \<and> running status \<and> pid status = Some p
         \<and> uptime status = whole_seconds (now_uptime obs - now_reset obs)
         \<and> (uptime status = 0 \<longleftrightarrow> within_a_second obs)))
   \<and> (census_reports (package_name self) obs1 p \<and> census_reports (package_name self) obs2 q
        \<and> p \<noteq> q \<longrightarrow>
      (\<exists>status1 cmds1 status2 cmds2.
         run_polls import_time self [obs1, obs2] = [(status1, cmds1), (status2, cmds2)]
         \<and> running status1 \<and> pid status1 = Some p
         \<and> running status2 \<and> pid status2 = Some q
         \<and> uptime status2 = whole_seconds (now_uptime obs2 - now_reset obs2)
         \<and> (uptime status2 = 0 \<longleftrightarrow> within_a_second obs2)))"
proof (intro conjI impI)
  assume "census_reports (package_name self) obs p \<and> last_pid self \<noteq> Some p"
  then have "check_app_status import_time self obs =
           (\<lparr>running = True, crashed = False, pid = Some p,
             uptime = whole_seconds (now_uptime obs - now_reset obs),
             memory_mb = fst (get_memory_usage obs p), timestamp = now_stamp obs\<rparr>,
            self\<lparr>last_pid := Some p, start_time := Some (now_reset obs)\<rparr>,
            [Pgrep (package_name self), Cat_proc_status p])"
    by (simp add: new_session_step)
  then show "\<exists>status self1 cmds.
         check_app_status import_time self obs = (status, self1, cmds)
         \<and> last_pid self1 = Some p \<and> start_time self1 = Some (now_reset obs)
         \<and> running status \<and> pid status = Some p
         \<and> uptime status = whole_seconds (now_uptime obs - now_reset obs)
         \<and> (uptime status = 0 \<longleftrightarrow> within_a_second obs)"
    by (simp add: within_a_second_def whole_seconds_zero_iff)
next
  assume asm: "census_reports (package_name self) obs1 p
    \<and> census_reports (package_name self) obs2 q \<and> p \<noteq> q"
  let ?mid = "track_pid self obs1 p"
  have c1: "census_reports (package_name self) obs1 p"
    using asm by simp
  have c2: "census_reports (package_name ?mid) obs2 q"
    using asm by (simp add: track_pid_simps)
  have changed: "last_pid ?mid \<noteq> Some q"
    using asm by (simp add: track_pid_simps)
  have polls: "run_polls import_time self [obs1, obs2] =
      [(fst (get_running_status self obs1 p), [Pgrep (package_name self), Cat_proc_status p]),
       (\<lparr>running = True, crashed = False, pid = Some q,
             uptime = whole_seconds (now_uptime obs2 - now_reset obs2),
             memory_mb = fst (get_memory_usage obs2 q), timestamp = now_stamp obs2\<rparr>,
        [Pgrep (package_name self), Cat_proc_status q])]"
    by (simp add: check_app_status_census [OF c1] new_session_step [OF c2 changed]
        track_pid_simps)
  show "\<exists>status1 cmds1 status2 cmds2.
         run_polls import_time self [obs1, obs2] = [(status1, cmds1), (status2, cmds2)]
         \<and> running status1 \<and> pid status1 = Some p
         \<and> running status2 \<and> pid status2 = Some q
         \<and> uptime status2 = whole_seconds (now_uptime obs2 - now_reset obs2)
         \<and> (uptime status2 = 0 \<longleftrightarrow> within_a_second obs2)"
    unfolding polls by (simp add: get_running_status_eq within_a_second_def whole_seconds_zero_iff)
qed

theorem pid_change_resets_uptime_witness:
  "uptime (fst (check_app_status 0 (ProcessMonitor_init ''com.example.app'')
                  (device_up ''4242\<newline>'' status_2048_kb 10000000))) = 0
   \<and> map (\<lambda>(status, cmds). (pid status, uptime status))
        (run_polls 0 (ProcessMonitor_init ''com.example.app'')
           [device_up ''4242\<newline>'' status_2048_kb 10000000,
            device_up ''4711\<newline>'' status_2048_kb 75000000])
       = [(Some 4242, 0), (Some 4711, 0)]"
proof -
  let ?self = "ProcessMonitor_init ''com.example.app''"
  let ?obs1 = "device_up ''4242\<newline>'' status_2048_kb 10000000"
  let ?obs2 = "device_up ''4711\<newline>'' status_2048_kb 75000000"
  have c1: "census_reports (package_name ?self) ?obs1 4242"
    by code_simp
  have c2: "census_reports (package_name ?self) ?obs2 4711"
    by code_simp
  have new: "last_pid ?self \<noteq> Some 4242"
    by (simp add: ProcessMonitor_init_def)
  have w1: "within_a_second ?obs1"
    by (simp add: within_a_second_def device_up_def)
  have w2: "within_a_second ?obs2"
    by (simp add: within_a_second_def device_up_def)
  have ne: "(4242 :: int) \<noteq> 4711"
    by simp
  from pid_change_resets_uptime [of ?self ?obs1 4242 0 ?obs1 ?obs2 4711]
  have one: "\<exists>status self1 cmds.
         check_app_status 0 ?self ?obs1 = (status, self1, cmds) \<and> uptime status = 0"
    and two: "\<exists>status1 cmds1 status2 cmds2.
         run_polls 0 ?self [?obs1, ?obs2] = [(status1, cmds1), (status2, cmds2)]
         \<and> pid status1 = Some 4242 \<and> pid status2 = Some 4711 \<and> uptime status2 = 0"
    using c1 c2 new w1 w2 ne by blast+
  from one have first: "uptime (fst (check_app_status 0 ?self ?obs1)) = 0"
    by auto
  have "fst (hd (run_polls 0 ?self [?obs1, ?obs2])) = fst (check_app_status 0 ?self ?obs1)"
    by (simp split: prod.splits)
  with two first show ?thesis
    by auto
qed

text \<open>
  C7. As written the claim fails: the uptime is taken from \<^verbatim>\<open>datetime.now()\<close>, the wall
  clock, which can be set back. Four evaluations that report one PID, with the clock at
  10 s, at 3610 s, and then set back to 10.5 s and to 8 s, give the uptimes 0, 3600, 0 and
  -1.
\<close>

theorem clock_set_back_lowers_uptime:
  "map (\<lambda>(status, cmds). uptime status)
     (run_polls 0 (ProcessMonitor_init ''com.example.app'')
        [device_up ''4242\<newline>'' status_2048_kb 10000000,
         device_up ''4242\<newline>'' status_2048_kb 3610000000,
         device_up ''4242\<newline>'' status_2048_kb 10500000,
         device_up ''4242\<newline>'' status_2048_kb 8000000])
   = [0, 3600, 0, - 1]"
  by code_simp

text \<open>
  C7, amended. Over any sequence of evaluations whose census reports the same PID every
  time there is one snapshot for each evaluation, each is running with that PID, and each
  evaluation ran the memory query \<^verbatim>\<open>cat /proc/PID/status\<close>. When the clock readings that
  the uptime is taken from (line 104) do not go back from one evaluation to the next, the
  uptimes of the successive snapshots are non-decreasing.
\<close>

theorem constant_pid_uptime_nondecreasing:
  "((\<forall>obs\<in>set obss. census_reports (package_name self) obs p) \<longrightarrow>
      length (run_polls import_time self obss) = length obss
      \<and> (\<forall>(status, cmds)\<in>set (run_polls import_time self obss).
            running status \<and> pid status = Some p \<and> Cat_proc_status p \<in> set cmds))
   \<and> ((\<forall>obs\<in>set obss. census_reports (package_name self) obs p)
        \<and> sorted (map now_uptime obss) \<longrightarrow>
      sorted (map (\<lambda>(status, cmds). uptime status) (run_polls import_time self obss)))"
proof (cases obss)
  case Nil
  then show ?thesis by simp
next
  case (Cons ob rest)
  let ?mid = "track_pid self ob p"
  let ?up = "\<lambda>d. case start_time ?mid of Some t0 \<Rightarrow> whole_seconds (d - t0) | None \<Rightarrow> 0"
  have polls: "run_polls import_time self obss =
      map (\<lambda>obs. (fst (get_running_status ?mid obs p),
                  [Pgrep (package_name self), Cat_proc_status p])) obss"
    if "\<forall>obs\<in>set obss. census_reports (package_name self) obs p"
    unfolding Cons using that unfolding Cons by (rule run_polls_constant_pid)
  have same: "track_pid ?mid obs p = ?mid" for obs
    by (rule track_pid_simps(3)) (rule track_pid_simps(2))
  have up: "uptime (fst (get_running_status ?mid obs p)) = ?up (now_uptime obs)" for obs
    by (simp only: uptime_get_running_status same)
  have mono: "?up a \<le> ?up b" if "a \<le> b" for a b
  proof (cases "start_time ?mid")
    case None
    then show ?thesis by simp
  next
    case (Some t0)
    have "a - t0 \<le> b - t0"
      using that by simp
    then show ?thesis
      using Some by (simp add: whole_seconds_mono)
  qed
  have each: "length (run_polls import_time self obss) = length obss
      \<and> (\<forall>(status, cmds)\<in>set (run_polls import_time self obss).
            running status \<and> pid status = Some p \<and> Cat_proc_status p \<in> set cmds)"
    if census: "\<forall>obs\<in>set obss. census_reports (package_name self) obs p"
    unfolding polls [OF census] by (simp add: get_running_status_eq)
  have ordered: "sorted (map (\<lambda>(status, cmds). uptime status) (run_polls import_time self obss))"
    if census: "\<forall>obs\<in>set obss. census_reports (package_name self) obs p"
      and clock: "sorted (map now_uptime obss)"
  proof -
    have ups: "map (\<lambda>(status, cmds). uptime status) (run_polls import_time self obss) =
        map (\<lambda>obs. ?up (now_uptime obs)) obss"
      unfolding polls [OF census] by (simp add: up o_def)
    have "sorted (map (\<lambda>obs. ?up (now_uptime obs)) obss)"
      using clock mono by (rule sorted_map_mono_fun)
    then show ?thesis
      by (simp only: ups)
  qed
  show ?thesis
    using each ordered by blast
qed

theorem constant_pid_uptime_nondecreasing_witness:
  "sorted (map (\<lambda>(status, cmds). uptime status)
     (run_polls 0 (ProcessMonitor_init ''com.example.app'')
        [device_up ''4242\<newline>'' status_2048_kb 10000000,
         device_up ''4242\<newline>'' status_2048_kb 12500000,
         device_up ''4242\<newline>'' status_2048_kb 75000000]))
   \<and> map (\<lambda>(status, cmds). (running status, uptime status, cmds))
     (run_polls 0 (ProcessMonitor_init ''com.example.app'')
        [device_up ''4242\<newline>'' status_2048_kb 10000000,
         device_up ''4242\<newline>'' status_2048_kb 12500000,
         device_up ''4242\<newline>'' status_2048_kb 75000000])
     = [(True, 0, [Pgrep ''com.example.app'', Cat_proc_status 4242]),
        (True, 2, [Pgrep ''com.example.app'', Cat_proc_status 4242]),
        (True, 65, [Pgrep ''com.example.app'', Cat_proc_status 4242])]"
proof -
  let ?self = "ProcessMonitor_init ''com.example.app''"
  let ?obss = "[device_up ''4242\<newline>'' status_2048_kb 10000000,
         device_up ''4242\<newline>'' status_2048_kb 12500000,
         device_up ''4242\<newline>'' status_2048_kb 75000000]"
  have c: "census_reports (package_name ?self) (device_up ''4242\<newline>'' status_2048_kb t) 4242"
    for t
    by (simp add: census_reports_def device_up_def) code_simp
  have census: "\<forall>obs\<in>set ?obss. census_reports (package_name ?self) obs 4242"
    using c by simp
  have clock: "sorted (map now_uptime ?obss)"
    by (simp add: device_up_def)
  have polled: "map (\<lambda>(status, cmds). (running status, uptime status, cmds))
      (run_polls 0 ?self ?obss)
     = [(True, 0, [Pgrep ''com.example.app'', Cat_proc_status 4242]),
        (True, 2, [Pgrep ''com.example.app'', Cat_proc_status 4242]),
        (True, 65, [Pgrep ''com.example.app'', Cat_proc_status 4242])]"
    by code_simp
  from constant_pid_uptime_nondecreasing
    [where obss = ?obss and self = ?self and p = 4242 and import_time = 0]
  have "sorted (map (\<lambda>(status, cmds). uptime status) (run_polls 0 ?self ?obss))"
    using census clock by blast
  with polled show ?thesis
    by (rule conjI [rotated])
qed

text \<open>
  C8. No snapshot that \<^verbatim>\<open>check_app_status\<close> returns is both running and crashed: a
  crashed snapshot is not running. Some observation gives a snapshot that is neither.
\<close>

theorem crashed_excludes_running:
  "\<not> (running (fst (check_app_status import_time self obs))
        \<and> crashed (fst (check_app_status import_time self obs)))
   \<and> (crashed (fst (check_app_status import_time self obs))
        \<longrightarrow> \<not> running (fst (check_app_status import_time self obs)))
   \<and> (\<exists>obs'. \<not> running (fst (check_app_status import_time self obs'))
        \<and> \<not> crashed (fst (check_app_status import_time self obs')))"
proof -
  have "\<not> (running (fst (check_app_status import_time self obs))
            \<and> crashed (fst (check_app_status import_time self obs)))"
    using check_app_status_cases [of import_time self obs]
    by (auto simp: get_running_status_eq AppStatus_init_def)
  moreover have "\<exists>obs'. \<not> running (fst (check_app_status import_time self obs'))
        \<and> \<not> crashed (fst (check_app_status import_time self obs'))"
  proof
    let ?obs = "\<lparr>respond = (\<lambda>cmd. Spawn_error), now_reset = 0, now_uptime = 0, now_stamp = 0\<rparr>"
    show "\<not> running (fst (check_app_status import_time self ?obs))
        \<and> \<not> crashed (fst (check_app_status import_time self ?obs))"
      by (simp add: check_app_status_def check_app_status_body_def run_command_def
          check_recent_crash_def AppStatus_init_def)
  qed
  ultimately show ?thesis
    by blast
qed

theorem crashed_excludes_running_witness:
  "crashed (fst (check_app_status 0 (ProcessMonitor_init ''com.example.app'')
       (device_down ''E AndroidRuntime: FATAL EXCEPTION: main com.example.app'' 10000000)))
   \<and> \<not> running (fst (check_app_status 0 (ProcessMonitor_init ''com.example.app'')
       (device_down ''E AndroidRuntime: FATAL EXCEPTION: main com.example.app'' 10000000)))"
proof -
  let ?s = "fst (check_app_status 0 (ProcessMonitor_init ''com.example.app'')
       (device_down ''E AndroidRuntime: FATAL EXCEPTION: main com.example.app'' 10000000))"
  have "crashed ?s"
    by code_simp
  then show ?thesis
    using crashed_excludes_running [of 0 "ProcessMonitor_init ''com.example.app''"
        "device_down ''E AndroidRuntime: FATAL EXCEPTION: main com.example.app'' 10000000"]
    by blast
qed

text \<open>
  C9. \<^verbatim>\<open>check_app_status\<close> returns a snapshot on every input. When the census finds no
  process (the command fails, or exits non-zero, or prints only white space) no exception
  leaves the body of the \<^verbatim>\<open>try\<close>, and the snapshot is not running, with no PID, uptime 0
  and memory 0. When the memory query for a PID fails, or its output has no \<^verbatim>\<open>VmRSS:\<close>
  line with a readable number, \<^verbatim>\<open>_get_memory_usage\<close> returns 0, and the evaluation of a
  census that reports this PID still returns a running snapshot with that PID, with
  memory 0, again with no exception leaving the body.
\<close>

theorem check_app_status_degrades:
  "(census_empty (package_name self) obs \<longrightarrow>
      (\<exists>status cmds. check_app_status_body import_time self obs = (Inr status, self, cmds)
         \<and> check_app_status import_time self obs = (status, self, cmds)
         \<and> \<not> running status \<and> pid status = None \<and> uptime status = 0
         \<and> memory_mb status = 0))
   \<and> (memory_unreadable obs p \<longrightarrow> get_memory_usage obs p = (0, [Cat_proc_status p]))
   \<and> (census_reports (package_name self) obs p \<and> memory_unreadable obs p \<longrightarrow>
      (\<exists>status self1 cmds. check_app_status_body import_time self obs = (Inr status, self1, cmds)
         \<and> check_app_status import_time self obs = (status, self1, cmds)
         \<and> running status \<and> \<not> crashed status \<and> pid status = Some p
         \<and> memory_mb status = 0))"
proof -
  have a: "\<exists>status cmds. check_app_status_body import_time self obs = (Inr status, self, cmds)
         \<and> check_app_status import_time self obs = (status, self, cmds)
         \<and> \<not> running status \<and> pid status = None \<and> uptime status = 0
         \<and> memory_mb status = 0"
    if "census_empty (package_name self) obs"
    using check_app_status_body_empty [OF that, of import_time]
    by (simp add: check_app_status_def AppStatus_init_def)
  have b: "get_memory_usage obs p = (0, [Cat_proc_status p])" if "memory_unreadable obs p"
    using memory_unreadable_zero [OF that]
    by (cases "get_memory_usage obs p") (simp add: get_memory_usage_def Let_def)
  have c: "\<exists>status self1 cmds. check_app_status_body import_time self obs = (Inr status, self1, cmds)
         \<and> check_app_status import_time self obs = (status, self1, cmds)
         \<and> running status \<and> \<not> crashed status \<and> pid status = Some p
         \<and> memory_mb status = 0"
    if "census_reports (package_name self) obs p" and "memory_unreadable obs p"
    using check_app_status_body_census [OF that(1), of import_time]
      memory_unreadable_zero [OF that(2)]
    by (simp add: check_app_status_def get_running_status_eq)
  show ?thesis
    using a b c by blast
qed

theorem check_app_status_degrades_witness:
  "\<not> running (fst (check_app_status 0 (ProcessMonitor_init ''com.example.app'')
        (device_down [] 10000000)))
   \<and> get_memory_usage (device_down [] 10000000) 4242 = (0, [Cat_proc_status 4242])
   \<and> get_memory_usage (device_up ''4242\<newline>'' ''Name:   app\<newline>VmRSS:   unknown\<newline>'' 10000000)
        4242 = (0, [Cat_proc_status 4242])
   \<and> running (fst (check_app_status 0 (ProcessMonitor_init ''com.example.app'')
        (device_up ''4242\<newline>'' ''Name:   app\<newline>VmRSS:   unknown\<newline>'' 10000000)))
   \<and> memory_mb (fst (check_app_status 0 (ProcessMonitor_init ''com.example.app'')
        (device_up ''4242\<newline>'' ''Name:   app\<newline>VmRSS:   unknown\<newline>'' 10000000))) = 0"
proof -
  let ?self = "ProcessMonitor_init ''com.example.app''"
  let ?down = "device_down [] 10000000"
  let ?up = "device_up ''4242\<newline>'' ''Name:   app\<newline>VmRSS:   unknown\<newline>'' 10000000"
  have e: "census_empty (package_name ?self) ?down"
    by code_simp
  have m1: "memory_unreadable ?down 4242"
    by code_simp
  have m2: "memory_unreadable ?up 4242"
    by code_simp
  have c: "census_reports (package_name ?self) ?up 4242"
    by code_simp
  have "\<not> running (fst (check_app_status 0 ?self ?down))"
    using check_app_status_degrades [of ?self ?down 0 4242] e by auto
  moreover have "get_memory_usage ?down 4242 = (0, [Cat_proc_status 4242])"
    using check_app_status_degrades [of ?self ?down 0 4242] m1 by blast
  moreover have "get_memory_usage ?up 4242 = (0, [Cat_proc_status 4242])"
    and "running (fst (check_app_status 0 ?self ?up))"
    and "memory_mb (fst (check_app_status 0 ?self ?up)) = 0"
    using check_app_status_degrades [of ?self ?up 0 4242] m2 c by auto
  ultimately show ?thesis
    by blast
qed

text \<open>
  C10. The \<^verbatim>\<open>timestamp\<close> of \<^verbatim>\<open>AppStatus()\<close> is the time of import. Every snapshot of
  \<^verbatim>\<open>check_app_status\<close> that is not running carries it, whatever the clock reads at the
  observation: the snapshots of the two not-running paths, and the \<^verbatim>\<open>AppStatus()\<close> that the
  handler returns when an exception leaves the body of the \<^verbatim>\<open>try\<close>. A running snapshot
  carries the clock reading of line 114.
\<close>

theorem default_timestamp_is_import_time:
  "timestamp (AppStatus_init import_time) = import_time
   \<and> (\<not> running (fst (check_app_status import_time self obs))
        \<longrightarrow> timestamp (fst (check_app_status import_time self obs)) = import_time)
   \<and> (running (fst (check_app_status import_time self obs))
        \<longrightarrow> timestamp (fst (check_app_status import_time self obs)) = now_stamp obs)
   \<and> (\<forall>e self1 cmds. check_app_status_body import_time self obs = (Inl e, self1, cmds) \<longrightarrow>
        check_app_status import_time self obs = (AppStatus_init import_time, self1, cmds))"
proof -
  have "timestamp (AppStatus_init import_time) = import_time"
    by (simp add: AppStatus_init_def)
  moreover have "(\<not> running (fst (check_app_status import_time self obs))
        \<longrightarrow> timestamp (fst (check_app_status import_time self obs)) = import_time)
   \<and> (running (fst (check_app_status import_time self obs))
        \<longrightarrow> timestamp (fst (check_app_status import_time self obs)) = now_stamp obs)"
    using check_app_status_cases [of import_time self obs]
    by (auto simp: get_running_status_eq AppStatus_init_def)
  moreover have "\<forall>e self1 cmds.
      check_app_status_body import_time self obs = (Inl e, self1, cmds) \<longrightarrow>
        check_app_status import_time self obs = (AppStatus_init import_time, self1, cmds)"
    by (simp add: check_app_status_def)
  ultimately show ?thesis
    by blast
qed

theorem default_timestamp_is_import_time_witness:
  "timestamp (fst (check_app_status 1000000 (ProcessMonitor_init ''com.example.app'')
       (device_down [] 86400000000))) = 1000000
   \<and> timestamp (fst (check_app_status 1000000 (ProcessMonitor_init ''com.example.app'')
       (device_up [CHR 0xB2] status_2048_kb 86400000000))) = 1000000
   \<and> fst (check_app_status 1000000 (ProcessMonitor_init ''com.example.app'')
       (device_up [CHR 0xB2] status_2048_kb 86400000000)) = AppStatus_init 1000000
   \<and> timestamp (fst (check_app_status 1000000 (ProcessMonitor_init ''com.example.app'')
       (device_up ''4242\<newline>'' status_2048_kb 86400000000))) = 86400000300"
proof -
  let ?self = "ProcessMonitor_init ''com.example.app''"
  let ?down = "device_down [] 86400000000"
  let ?bad = "device_up [CHR 0xB2] status_2048_kb 86400000000"
  let ?up = "device_up ''4242\<newline>'' status_2048_kb 86400000000"
  have d: "\<not> running (fst (check_app_status 1000000 ?self ?down))"
    by code_simp
  have b: "check_app_status_body 1000000 ?self ?bad = (Inl ValueError, ?self, [Pgrep ''com.example.app''])"
    by code_simp
  have u: "running (fst (check_app_status 1000000 ?self ?up))"
    by code_simp
  have s: "now_stamp ?up = 86400000300"
    by (simp add: device_up_def)
  have "timestamp (fst (check_app_status 1000000 ?self ?down)) = 1000000"
    using default_timestamp_is_import_time [of 1000000 ?self ?down] d by blast
  moreover have bad: "check_app_status 1000000 ?self ?bad
      = (AppStatus_init 1000000, ?self, [Pgrep ''com.example.app''])"
    using default_timestamp_is_import_time [of 1000000 ?self ?bad] b by blast
  moreover have "timestamp (AppStatus_init 1000000) = 1000000"
    using default_timestamp_is_import_time [of 1000000 ?self ?bad] by blast
  moreover have "timestamp (fst (check_app_status 1000000 ?self ?up)) = 86400000300"
    using default_timestamp_is_import_time [of 1000000 ?self ?up] u s by simp
  ultimately show ?thesis
    by simp
qed

end
